theory Spec2Isabelle
  imports Complex_Main "HOL-Library.Word"
begin

section \<open>The vault contract (contracts/aegis_position.py)\<close>

text \<open>
  The contract is written in Algorand Python. Its \<^verbatim>\<open>UInt64\<close> is the AVM's unsigned
  64-bit integer: \<^verbatim>\<open>+\<close> and \<^verbatim>\<open>-\<close> do not wrap, they fail the transaction on overflow
  and underflow. \<^verbatim>\<open>assert\<close> fails the transaction with its message. A failed
  application call leaves the global state as it was. \<^verbatim>\<open>Account(b)\<close> built from a
  \<^verbatim>\<open>Bytes\<close> value checks that \<open>b\<close> is 32 bytes long. Each method is a function from
  the transaction context and the global state to either an error or the new state.
\<close>

type_synonym uint64 = "64 word"
type_synonym bytes = "8 word list"

datatype avm_error =
    AssertFailed string
  | Overflow
  | Underflow
  | AddressLength

definition u64_add :: "uint64 \<Rightarrow> uint64 \<Rightarrow> avm_error + uint64" where
  "u64_add a b = (if unat a + unat b < 2 ^ 64 then Inr (a + b) else Inl Overflow)"

definition u64_sub :: "uint64 \<Rightarrow> uint64 \<Rightarrow> avm_error + uint64" where
  "u64_sub a b = (if b \<le> a then Inr (a - b) else Inl Underflow)"

definition Account :: "bytes \<Rightarrow> avm_error + bytes" where
  "Account b = (if length b = 32 then Inr b else Inl AddressLength)"

text \<open>\<^verbatim>\<open>Txn.sender\<close>, \<^verbatim>\<open>Global.creator_address\<close> and \<^verbatim>\<open>Global.latest_timestamp\<close>.\<close>

record txn_context =
  sender :: bytes
  creator_address :: bytes
  latest_timestamp :: uint64

record AegisPosition =
  entry_price :: uint64
  lower_bound :: uint64
  upper_bound :: uint64
  capital_usdc :: uint64
  open_timestamp :: uint64
  total_rebalances :: uint64
  last_rebalance_timestamp :: uint64
  deposited_algo :: uint64
  deposited_usdc :: uint64
  total_deposits :: uint64
  total_withdrawals :: uint64
  agent_address :: bytes
  agent_authorized :: uint64
  total_decisions :: uint64
  last_decision_timestamp :: uint64
  last_decision_action :: uint64

definition initialize :: "AegisPosition" where
  "initialize =
     \<lparr> entry_price = 0, lower_bound = 0, upper_bound = 0, capital_usdc = 0,
       open_timestamp = 0, total_rebalances = 0, last_rebalance_timestamp = 0,
       deposited_algo = 0, deposited_usdc = 0, total_deposits = 0, total_withdrawals = 0,
       agent_address = [], agent_authorized = 0,
       total_decisions = 0, last_decision_timestamp = 0, last_decision_action = 0 \<rparr>"

definition set_position ::
  "txn_context \<Rightarrow> AegisPosition \<Rightarrow> uint64 \<Rightarrow> uint64 \<Rightarrow> uint64 \<Rightarrow> uint64 \<Rightarrow> avm_error + AegisPosition" where
  "set_position ctx s entry lower upper capital =
     (if sender ctx \<noteq> creator_address ctx then Inl (AssertFailed ''Unauthorized'')
      else Inr (s\<lparr> entry_price := entry, lower_bound := lower, upper_bound := upper,
                   capital_usdc := capital, open_timestamp := latest_timestamp ctx \<rparr>))"

definition authorize_agent :: "txn_context \<Rightarrow> AegisPosition \<Rightarrow> bytes \<Rightarrow> avm_error + AegisPosition" where
  "authorize_agent ctx s agent =
     (if sender ctx \<noteq> creator_address ctx then Inl (AssertFailed ''Unauthorized'')
      else Inr (s\<lparr> agent_address := agent, agent_authorized := 1 \<rparr>))"

definition revoke_agent :: "txn_context \<Rightarrow> AegisPosition \<Rightarrow> avm_error + AegisPosition" where
  "revoke_agent ctx s =
     (if sender ctx \<noteq> creator_address ctx then Inl (AssertFailed ''Unauthorized'')
      else Inr (s\<lparr> agent_address := [], agent_authorized := 0 \<rparr>))"

text \<open>
  \<^verbatim>\<open>is_agent = self.agent_authorized == UInt64(1)\<close>, then, only when that holds,
  \<^verbatim>\<open>is_agent = Txn.sender == Account(self.agent_address)\<close>: the shared prologue of
  \<^verbatim>\<open>trigger_rebalance\<close> and \<^verbatim>\<open>log_decision\<close>.
\<close>

definition sender_is_agent :: "txn_context \<Rightarrow> AegisPosition \<Rightarrow> avm_error + bool" where
  "sender_is_agent ctx s =
     (if agent_authorized s = 1
      then (case Account (agent_address s) of
              Inl e \<Rightarrow> Inl e
            | Inr a \<Rightarrow> Inr (sender ctx = a))
      else Inr False)"

definition trigger_rebalance ::
  "txn_context \<Rightarrow> AegisPosition \<Rightarrow> uint64 \<Rightarrow> uint64 \<Rightarrow> avm_error + AegisPosition" where
  "trigger_rebalance ctx s new_lower new_upper =
     (let is_creator = (sender ctx = creator_address ctx) in
      case sender_is_agent ctx s of
        Inl e \<Rightarrow> Inl e
      | Inr is_agent \<Rightarrow>
          if \<not> (is_creator \<or> is_agent)
          then Inl (AssertFailed ''Unauthorized: not creator or agent'')
          else (case u64_add (total_rebalances s) 1 of
                  Inl e \<Rightarrow> Inl e
                | Inr rebalances \<Rightarrow>
                    (case u64_add (total_decisions s) 1 of
                       Inl e \<Rightarrow> Inl e
                     | Inr decisions \<Rightarrow>
                         Inr (s\<lparr> lower_bound := new_lower,
                                  upper_bound := new_upper,
                                  total_rebalances := rebalances,
                                  last_rebalance_timestamp := latest_timestamp ctx,
                                  total_decisions := decisions,
                                  last_decision_timestamp := latest_timestamp ctx,
                                  last_decision_action := 1 \<rparr>))))"

definition deposit ::
  "txn_context \<Rightarrow> AegisPosition \<Rightarrow> uint64 \<Rightarrow> uint64 \<Rightarrow> avm_error + AegisPosition" where
  "deposit ctx s algo_amount usdc_amount =
     (case u64_add (deposited_algo s) algo_amount of
        Inl e \<Rightarrow> Inl e
      | Inr algo \<Rightarrow>
          (case u64_add (deposited_usdc s) usdc_amount of
             Inl e \<Rightarrow> Inl e
           | Inr usdc \<Rightarrow>
               (case u64_add (total_deposits s) 1 of
                  Inl e \<Rightarrow> Inl e
                | Inr deposits \<Rightarrow>
                    Inr (s\<lparr> deposited_algo := algo, deposited_usdc := usdc,
                             total_deposits := deposits \<rparr>))))"

definition withdraw ::
  "txn_context \<Rightarrow> AegisPosition \<Rightarrow> uint64 \<Rightarrow> uint64 \<Rightarrow> avm_error + AegisPosition" where
  "withdraw ctx s algo_amount usdc_amount =
     (if sender ctx \<noteq> creator_address ctx then Inl (AssertFailed ''Only creator can withdraw'')
      else if \<not> algo_amount \<le> deposited_algo s then Inl (AssertFailed ''Insufficient ALGO'')
      else if \<not> usdc_amount \<le> deposited_usdc s then Inl (AssertFailed ''Insufficient USDC'')
      else (case u64_sub (deposited_algo s) algo_amount of
              Inl e \<Rightarrow> Inl e
            | Inr algo \<Rightarrow>
                (case u64_sub (deposited_usdc s) usdc_amount of
                   Inl e \<Rightarrow> Inl e
                 | Inr usdc \<Rightarrow>
                     (case u64_add (total_withdrawals s) 1 of
                        Inl e \<Rightarrow> Inl e
                      | Inr withdrawals \<Rightarrow>
                          Inr (s\<lparr> deposited_algo := algo, deposited_usdc := usdc,
                                   total_withdrawals := withdrawals \<rparr>)))))"

definition log_decision :: "txn_context \<Rightarrow> AegisPosition \<Rightarrow> uint64 \<Rightarrow> avm_error + AegisPosition" where
  "log_decision ctx s action_code =
     (let is_creator = (sender ctx = creator_address ctx) in
      case sender_is_agent ctx s of
        Inl e \<Rightarrow> Inl e
      | Inr is_agent \<Rightarrow>
          if \<not> (is_creator \<or> is_agent) then Inl (AssertFailed ''Unauthorized'')
          else (case u64_add (total_decisions s) 1 of
                  Inl e \<Rightarrow> Inl e
                | Inr decisions \<Rightarrow>
                    Inr (s\<lparr> total_decisions := decisions,
                             last_decision_timestamp := latest_timestamp ctx,
                             last_decision_action := action_code \<rparr>)))"

text \<open>
  The ledger's view of one application call: the new state when the call succeeds, the
  old state when it fails.
\<close>

definition state_after :: "AegisPosition \<Rightarrow> avm_error + AegisPosition \<Rightarrow> AegisPosition" where
  "state_after s r = (case r of Inl e \<Rightarrow> s | Inr s' \<Rightarrow> s')"

definition succeeds :: "avm_error + 'a \<Rightarrow> bool" where
  "succeeds r = (case r of Inl e \<Rightarrow> False | Inr x \<Rightarrow> True)"

text \<open>
  The sender is the authorised agent: the flag is set and the stored address is the sender.
\<close>

definition authorized_agent :: "txn_context \<Rightarrow> AegisPosition \<Rightarrow> bool" where
  "authorized_agent ctx s = (agent_authorized s = 1 \<and> agent_address s = sender ctx)"

text \<open>
  States the contract can be in: the flag is set only by \<^verbatim>\<open>authorize_agent\<close>, together
  with the 32 bytes of an account.
\<close>

definition agent_slot_ok :: "AegisPosition \<Rightarrow> bool" where
  "agent_slot_ok s = (if agent_authorized s = 1 then length (agent_address s) = 32 else True)"

section \<open>The monitoring agent (agent/aegis_agent.py, agent/config.py)\<close>

text \<open>
  Python's floats are modelled as real numbers: rounding, infinities and NaN are not
  modelled. Every reading of \<^verbatim>\<open>time.time()\<close> is an argument of the function that
  reads it. An f-string is kept as the list of its pieces, so that no number formatting
  has to be modelled.
\<close>

subsection \<open>config.py\<close>

definition BUFFER_ZONE_PCT :: real where
  "BUFFER_ZONE_PCT = 3.0"

definition REBALANCE_COOLDOWN_SECONDS :: int where
  "REBALANCE_COOLDOWN_SECONDS = 1800"

definition COST_BENEFIT_MULTIPLIER :: real where
  "COST_BENEFIT_MULTIPLIER = 2.5"

definition VOLATILITY_WINDOW :: int where
  "VOLATILITY_WINDOW = 24"

definition MIN_HOURS_IN_RANGE :: real where
  "MIN_HOURS_IN_RANGE = 4"

text \<open>The defaults of the environment variables.\<close>

definition APP_ID :: int where
  "APP_ID = 755777633"

definition TINYMAN_POOL_APP_ID :: int where
  "TINYMAN_POOL_APP_ID = 148607000"

definition TINYMAN_POOL_ADDRESS :: string where
  "TINYMAN_POOL_ADDRESS = ''UDFWT5DW3X5RZQYXKQEMZ6MRWAEYHWYP7YUAPZKPW6WJK3JH3OZPL7PO2Y''"

definition USDC_ASA_ID :: int where
  "USDC_ASA_ID = 10458941"

subsection \<open>Python helpers\<close>

datatype py_error = KeyError string | AttributeError string | SdkError string

text \<open>\<^verbatim>\<open>xs[j:]\<close>: a negative start counts from the end and is clamped at the front.\<close>

definition py_slice_from :: "'a list \<Rightarrow> int \<Rightarrow> 'a list" where
  "py_slice_from xs j =
     (if j < 0 then drop (nat (int (length xs) + j)) xs else drop (nat j) xs)"

text \<open>\<^verbatim>\<open>int(x)\<close> on a float truncates towards zero.\<close>

definition py_int :: "real \<Rightarrow> int" where
  "py_int x = (if 0 \<le> x then \<lfloor>x\<rfloor> else \<lceil>x\<rceil>)"

text \<open>\<^verbatim>\<open>round(x, n)\<close>: to \<open>n\<close> decimals, ties to the even neighbour.\<close>

definition py_round :: "real \<Rightarrow> nat \<Rightarrow> real" where
  "py_round x n =
     (let y = x * 10 ^ n; f = \<lfloor>y\<rfloor>; d = y - of_int f
      in of_int (if d < 1 / 2 then f else if 1 / 2 < d then f + 1
                 else if even f then f else f + 1) / 10 ^ n)"

text \<open>The pieces of an f-string: literal text, \<^verbatim>\<open>{n}\<close> for an int, \<^verbatim>\<open>{x}\<close> and \<^verbatim>\<open>{x:.kf}\<close> for a float.\<close>

datatype fpiece = Lit string | IntDec int | FloatRepr real | FloatFixed nat real

subsection \<open>Data layer\<close>

record PositionState =
  entry_price :: real
  lower_bound :: real
  upper_bound :: real
  capital_usdc :: real
  total_rebalances :: int
  open_timestamp :: int

text \<open>\<^verbatim>\<open>PositionState()\<close>: the class attributes' defaults.\<close>

definition PositionState_init :: PositionState where
  "PositionState_init =
     \<lparr> entry_price = 0.172, lower_bound = 0.140, upper_bound = 0.220,
       capital_usdc = 5000.0, total_rebalances = 0, open_timestamp = 0 \<rparr>"

definition estimate_swap_cost :: "real \<Rightarrow> real \<Rightarrow> real" where
  "estimate_swap_cost capital slippage_pct =
     (let swap_amount = capital * 0.5;
          swap_fee = swap_amount * 0.003;
          slippage_cost = swap_amount * (slippage_pct / 100);
          gas_cost = 0.004
      in swap_fee + slippage_cost + gas_cost)"

subsection \<open>VolatilityModel\<close>

record VolatilityModel =
  window :: int
  price_history :: "real list"

definition VolatilityModel_init :: "int \<Rightarrow> VolatilityModel" where
  "VolatilityModel_init w = \<lparr> window = w, price_history = [] \<rparr>"

definition update :: "VolatilityModel \<Rightarrow> real \<Rightarrow> VolatilityModel" where
  "update self price =
     (let history = price_history self @ [price];
          max_samples = window self * 90
      in if int (length history) > max_samples
         then self\<lparr> price_history := py_slice_from history (- max_samples) \<rparr>
         else self\<lparr> price_history := history \<rparr>)"

definition predict_hours_in_range :: "VolatilityModel \<Rightarrow> real \<Rightarrow> real \<Rightarrow> real \<Rightarrow> real" where
  "predict_hours_in_range self current lower upper =
     (if length (price_history self) < 10 then 12.0
      else
        let recent = py_slice_from (price_history self) (- 90);
            mean = sum_list recent / real (length recent);
            variance = sum_list (map (\<lambda>p. (p - mean) ^ 2) recent) / real (length recent);
            std_dev = (if variance > 0 then sqrt variance else 0.001);
            dist_lower = current - lower;
            dist_upper = upper - current;
            min_dist = min dist_lower dist_upper;
            hourly_std = std_dev * sqrt 90
        in if hourly_std < 0.0001 then 48.0
           else (let hours = (min_dist / hourly_std) ^ 2 in min hours 168))"

subsection \<open>DecisionEngine\<close>

datatype action = HOLD | REBALANCE | ALERT | SKIP

text \<open>
  The dict \<^verbatim>\<open>evaluate\<close> returns. The keys \<^verbatim>\<open>new_lower\<close> and \<^verbatim>\<open>new_upper\<close> are absent
  from some of the dicts: \<open>None\<close>.
\<close>

record Decision =
  action :: action
  reason :: "fpiece list"
  fee_projection :: real
  swap_cost :: real
  hours_in_range :: real
  confidence :: real
  new_lower :: "real option"
  new_upper :: "real option"

record DecisionEngine =
  vol_model :: VolatilityModel
  last_rebalance_time :: real

definition DecisionEngine_init :: DecisionEngine where
  "DecisionEngine_init =
     \<lparr> vol_model = VolatilityModel_init VOLATILITY_WINDOW, last_rebalance_time = 0.0 \<rparr>"

text \<open>
  \<^verbatim>\<open>min(dist_lower, dist_upper)\<close> of the buffer-zone guard: the relative distance of the
  price to each bound, 999 for a bound that is not positive.
\<close>

definition boundary_distance :: "PositionState \<Rightarrow> real \<Rightarrow> real" where
  "boundary_distance position price =
     (let dist_lower = (if lower_bound position > 0
                        then \<bar>price - lower_bound position\<bar> / lower_bound position else 999);
          dist_upper = (if upper_bound position > 0
                        then \<bar>price - upper_bound position\<bar> / upper_bound position else 999)
      in min dist_lower dist_upper)"

text \<open>
  \<open>now\<close> is the reading of \<^verbatim>\<open>time.time()\<close> in the cooldown guard, \<open>stamp\<close> the one
  stored by a REBALANCE branch. \<^verbatim>\<open>pool_state["fee_rate"]\<close> raises \<open>KeyError\<close> when the
  key is missing; the sample of \<^verbatim>\<open>vol_model.update\<close> is stored by then. The result is
  the returned dict (or the exception) and the engine after the call.
\<close>

definition evaluate ::
  "DecisionEngine \<Rightarrow> real \<Rightarrow> real \<Rightarrow> real \<Rightarrow> PositionState \<Rightarrow> (string \<rightharpoonup> real)
     \<Rightarrow> (py_error + Decision) \<times> DecisionEngine" where
  "evaluate self0 now stamp price position pool_state =
     (let self = self0\<lparr> vol_model := update (vol_model self0) price \<rparr>;
          in_range = (lower_bound position \<le> price \<and> price \<le> upper_bound position);
          swap_cost = estimate_swap_cost (capital_usdc position) 0.5;
          since_last = now - last_rebalance_time self
      in
      if since_last < real_of_int REBALANCE_COOLDOWN_SECONDS \<and> last_rebalance_time self > 0
      then
        (let remaining = py_int (real_of_int REBALANCE_COOLDOWN_SECONDS - since_last)
         in (Inr \<lparr> action = SKIP,
                   reason = [Lit ''Cooldown: '', IntDec remaining, Lit ''s remaining (min '',
                             IntDec REBALANCE_COOLDOWN_SECONDS, Lit ''s between rebalances)''],
                   fee_projection = 0, swap_cost = swap_cost, hours_in_range = 0,
                   confidence = 0.3, new_lower = None, new_upper = None \<rparr>, self))
      else
        (let buffer_frac = BUFFER_ZONE_PCT / 100.0 in
         if \<not> in_range \<and> boundary_distance position price < buffer_frac
         then
           (Inr \<lparr> action = HOLD,
                  reason = [Lit ''Buffer zone: price '',
                            FloatFixed 1 (boundary_distance position price * 100),
                            Lit ''% from boundary (< '', FloatRepr BUFFER_ZONE_PCT,
                            Lit ''% threshold)''],
                  fee_projection = 0, swap_cost = swap_cost, hours_in_range = 0,
                  confidence = 0.6, new_lower = None, new_upper = None \<rparr>, self)
         else
           (case pool_state ''fee_rate'' of
              None \<Rightarrow> (Inl (KeyError ''fee_rate''), self)
            | Some fee_rate \<Rightarrow>
               (let daily_fee = capital_usdc position * fee_rate * (if in_range then 1.0 else 0.0);
                    weekly_fee = daily_fee * 7;
                    hours_in_range = predict_hours_in_range (vol_model self) price
                                       (lower_bound position) (upper_bound position)
                in
                if in_range then
                  (if hours_in_range < MIN_HOURS_IN_RANGE then
                     (let net_benefit = weekly_fee - swap_cost in
                      if net_benefit > swap_cost * COST_BENEFIT_MULTIPLIER
                      then
                        (Inr \<lparr> action = REBALANCE,
                               reason = [Lit ''Preemptive: '', FloatFixed 1 hours_in_range,
                                         Lit ''h to boundary, net +$'', FloatFixed 2 net_benefit],
                               fee_projection = weekly_fee, swap_cost = swap_cost,
                               hours_in_range = hours_in_range, confidence = 0.7,
                               new_lower = None, new_upper = None \<rparr>,
                         self\<lparr> last_rebalance_time := stamp \<rparr>)
                      else
                        (Inr \<lparr> action = ALERT,
                               reason = [Lit ''Near boundary ('', FloatFixed 1 hours_in_range,
                                         Lit ''h), but cost too high''],
                               fee_projection = weekly_fee, swap_cost = swap_cost,
                               hours_in_range = hours_in_range, confidence = 0.5,
                               new_lower = None, new_upper = None \<rparr>, self))
                   else
                     (Inr \<lparr> action = HOLD,
                            reason = [Lit ''In range, ~'', FloatFixed 0 hours_in_range,
                                      Lit ''h predicted, fees +$'', FloatFixed 2 daily_fee,
                                      Lit ''/day''],
                            fee_projection = weekly_fee, swap_cost = swap_cost,
                            hours_in_range = hours_in_range, confidence = 0.9,
                            new_lower = None, new_upper = None \<rparr>, self))
                else
                  (let new_lower = price * 0.82;
                       new_upper = price * 1.22;
                       projected_daily = capital_usdc position * fee_rate;
                       projected_weekly = projected_daily * 7
                   in
                   if projected_weekly > swap_cost * COST_BENEFIT_MULTIPLIER
                   then
                     (Inr \<lparr> action = REBALANCE,
                            reason = [Lit ''Out of range. Projected +$'',
                                      FloatFixed 2 projected_weekly, Lit ''/wk > cost $'',
                                      FloatFixed 2 swap_cost],
                            fee_projection = projected_weekly, swap_cost = swap_cost,
                            hours_in_range = 0, confidence = 0.85,
                            new_lower = Some new_lower, new_upper = Some new_upper \<rparr>,
                      self\<lparr> last_rebalance_time := stamp \<rparr>)
                   else
                     (Inr \<lparr> action = SKIP,
                            reason = [Lit ''Out of range, but cost $'', FloatFixed 2 swap_cost,
                                      Lit '' > benefit $'', FloatFixed 2 projected_weekly],
                            fee_projection = projected_weekly, swap_cost = swap_cost,
                            hours_in_range = 0, confidence = 0.6,
                            new_lower = None, new_upper = None \<rparr>, self))))))"

subsection \<open>DecisionLogger\<close>

text \<open>
  One entry of \<^verbatim>\<open>DecisionLogger.entries\<close>, each key of the dict with the prefix
  \<open>log_\<close>. Writing the file and the Supabase mirror are not modelled.
\<close>

record LogEntry =
  log_timestamp :: int
  log_datetime :: string
  log_price :: real
  log_action :: action
  log_reason :: "fpiece list"
  log_fee_projection :: real
  log_swap_cost :: real
  log_hours_in_range :: real
  log_confidence :: real
  log_tx_id :: "string option"

definition DecisionLogger_log ::
  "LogEntry list \<Rightarrow> real \<Rightarrow> string \<Rightarrow> Decision \<Rightarrow> real \<Rightarrow> string option \<Rightarrow> LogEntry list" where
  "DecisionLogger_log entries time_now datetime_now decision price tx_id =
     entries @
       [\<lparr> log_timestamp = py_int time_now,
          log_datetime = datetime_now,
          log_price = price,
          log_action = action decision,
          log_reason = reason decision,
          log_fee_projection = py_round (fee_projection decision) 4,
          log_swap_cost = py_round (swap_cost decision) 4,
          log_hours_in_range = py_round (hours_in_range decision) 2,
          log_confidence = py_round (confidence decision) 3,
          log_tx_id = tx_id \<rparr>]"

subsection \<open>AtomicGroupBuilder\<close>

text \<open>
  The SDK's values as data: the suggested parameters (the two fields the builder sets
  and the validity window), and the transactions the builder constructs, with the
  arguments it passes. \<open>PaymentTxn sender sp receiver amt note\<close>, and
  \<open>ApplicationCallTxn sender sp index app_args foreign_assets accounts note\<close> with
  \<^verbatim>\<open>on_complete = NoOpOC\<close>. A transaction with its group id is a pair.
\<close>

record SuggestedParams =
  flat_fee :: bool
  fee :: int
  first_round :: int
  last_round :: int

datatype txn =
    PaymentTxn string SuggestedParams string int string
  | ApplicationCallTxn string SuggestedParams int "string list" "int list" "string list" string

record AtomicGroupBuilder =
  agent_address :: string
  agent_private_key :: string

text \<open>
  What one cycle gets from outside: the position and pool state read, the clock
  readings, and the calls into the SDK and the node, each of which returns or raises.
  \<^item> \<open>suggested_params\<close>: \<^verbatim>\<open>algod_client.suggested_params()\<close>.
  \<^item> \<open>atomic_transaction_composer\<close>: the attribute lookup
    \<^verbatim>\<open>transaction.atomic_transaction_composer\<close> on the module \<^verbatim>\<open>algosdk.transaction\<close>.
    In py-algorand-sdk the composer is the module \<^verbatim>\<open>algosdk.atomic_transaction_composer\<close>;
    \<^verbatim>\<open>algosdk.transaction\<close> has no such attribute and the lookup raises
    \<^verbatim>\<open>AttributeError\<close>.
  \<^item> \<open>add_method_call app_id signature sender sp key method_args\<close>: the composer's
    \<^verbatim>\<open>add_method_call\<close> and \<^verbatim>\<open>build_group\<close>, giving the transaction \<^verbatim>\<open>atc_group[0].txn\<close>.
  \<^item> \<open>calculate_group_id\<close>, \<open>sign_txn\<close> (\<^verbatim>\<open>t.sign(key)\<close>),
    \<open>send_transactions\<close> and \<open>wait_for_confirmation\<close>.
\<close>

record 's cycle_world =
  read_position_state :: PositionState
  fetch_pact_pool_state :: "string \<rightharpoonup> real"
  time_guard :: real
  time_stamp :: real
  suggested_params :: "py_error + SuggestedParams"
  atomic_transaction_composer :: "py_error + unit"
  add_method_call ::
    "int \<Rightarrow> string \<Rightarrow> string \<Rightarrow> SuggestedParams \<Rightarrow> string \<Rightarrow> int list \<Rightarrow> py_error + txn"
  calculate_group_id :: "txn list \<Rightarrow> string"
  sign_txn :: "txn \<times> string \<Rightarrow> string \<Rightarrow> py_error + 's"
  send_transactions :: "'s list \<Rightarrow> py_error + string"
  wait_for_confirmation :: "string \<Rightarrow> int \<Rightarrow> py_error + (string \<rightharpoonup> int)"
  time_logged :: real
  datetime_logged :: string

text \<open>\<^verbatim>\<open>[t.sign(self.agent_private_key) for t in txns]\<close>: the first exception ends it.\<close>

fun sign_all ::
  "(txn \<times> string \<Rightarrow> string \<Rightarrow> py_error + 's) \<Rightarrow> string \<Rightarrow> (txn \<times> string) list
     \<Rightarrow> py_error + 's list" where
  "sign_all f key [] = Inr []"
| "sign_all f key (t # ts) =
     (case f t key of
        Inl e \<Rightarrow> Inl e
      | Inr signed_txn \<Rightarrow>
          (case sign_all f key ts of
             Inl e \<Rightarrow> Inl e
           | Inr rest \<Rightarrow> Inr (signed_txn # rest)))"

text \<open>
  \<^verbatim>\<open>build_rebalance_group(new_lower, new_upper, position)\<close>. It has no \<^verbatim>\<open>try\<close>: an
  exception of any call leaves the method. The five transactions are built in the
  order withdraw, swap input, swap, deposit, \<^verbatim>\<open>trigger_rebalance\<close>; all get the group
  id, then all are signed.
\<close>

definition build_rebalance_group ::
  "'s cycle_world \<Rightarrow> AtomicGroupBuilder \<Rightarrow> real \<Rightarrow> real \<Rightarrow> PositionState \<Rightarrow> py_error + 's list" where
  "build_rebalance_group w self = (\<lambda>new_lower new_upper position.
     case suggested_params w of
       Inl e \<Rightarrow> Inl e
     | Inr sp \<Rightarrow>
        (let params = sp\<lparr> flat_fee := True, fee := 1000 \<rparr>;
             txn1 = PaymentTxn (agent_address self) params (agent_address self) 0
                      ''aegis:pact_withdraw'';
             swap_amount_algo = 10000;
             txn2 = PaymentTxn (agent_address self) params TINYMAN_POOL_ADDRESS swap_amount_algo
                      ''aegis:tinyman_swap_input'';
             txn3 = ApplicationCallTxn (agent_address self) params TINYMAN_POOL_APP_ID
                      [''swap'', ''fixed-input'', replicate 8 (char_of (0::nat))]
                      [USDC_ASA_ID] [TINYMAN_POOL_ADDRESS] ''aegis:tinyman_swap_execute'';
             txn4 = PaymentTxn (agent_address self) params (agent_address self) 0
                      ''aegis:pact_deposit_new_range''
         in case atomic_transaction_composer w of
              Inl e \<Rightarrow> Inl e
            | Inr atc \<Rightarrow>
               (case add_method_call w APP_ID ''trigger_rebalance(uint64,uint64)void''
                       (agent_address self) params (agent_private_key self)
                       [py_int (new_lower * 1000), py_int (new_upper * 1000)] of
                  Inl e \<Rightarrow> Inl e
                | Inr txn5 \<Rightarrow>
                   (let txns = [txn1, txn2, txn3, txn4, txn5];
                        gid = calculate_group_id w txns
                    in sign_all (sign_txn w) (agent_private_key self)
                         (map (\<lambda>t. (t, gid)) txns)))))"

text \<open>
  \<^verbatim>\<open>submit_group(signed_txns)\<close>: the whole body is in a \<^verbatim>\<open>try\<close> whose
  \<^verbatim>\<open>except Exception\<close> returns \<^verbatim>\<open>None\<close>; otherwise the transaction id is returned.
\<close>

definition submit_group :: "'s cycle_world \<Rightarrow> 's list \<Rightarrow> string option" where
  "submit_group w signed_txns =
     (case send_transactions w signed_txns of
        Inl e \<Rightarrow> None
      | Inr txid \<Rightarrow>
          (case wait_for_confirmation w txid 4 of
             Inl e \<Rightarrow> None
           | Inr result \<Rightarrow> Some txid))"

subsection \<open>One cycle of monitoring_loop\<close>

text \<open>\<^verbatim>\<open>if tx_id:\<close> holds for a string that is not empty.\<close>

definition truthy :: "string option \<Rightarrow> bool" where
  "truthy t = (case t of None \<Rightarrow> False | Some x \<Rightarrow> x \<noteq> [])"

text \<open>
  The body of the \<^verbatim>\<open>while True\<close> loop of \<^verbatim>\<open>monitoring_loop\<close>, on the engine and the
  logger's entries. \<open>builder\<close> is \<^verbatim>\<open>None\<close> in a dry run (no \<^verbatim>\<open>AGENT_MNEMONIC\<close>) and
  the \<^verbatim>\<open>AtomicGroupBuilder\<close> otherwise. An exception anywhere in the \<^verbatim>\<open>try\<close> block is
  caught by the cycle's \<^verbatim>\<open>except Exception\<close>: the cycle ends without a log entry, with
  what was mutated before it.
\<close>

definition monitoring_cycle ::
  "AtomicGroupBuilder option \<Rightarrow> 's cycle_world \<Rightarrow> DecisionEngine \<times> LogEntry list
     \<Rightarrow> DecisionEngine \<times> LogEntry list" where
  "monitoring_cycle builder w st =
     (let dry_run = (builder = None);
          engine = fst st;
          entries = snd st;
          position = read_position_state w;
          pool_state = fetch_pact_pool_state w
      in case pool_state ''current_price'' of
           None \<Rightarrow> (engine, entries)
         | Some price \<Rightarrow>
            (case evaluate engine (time_guard w) (time_stamp w) price position pool_state of
               (Inl e, engine') \<Rightarrow> (engine', entries)
             | (Inr decision, engine') \<Rightarrow>
                 if action decision = REBALANCE \<and> \<not> dry_run then
                   (let new_lower = (case new_lower decision of
                                       Some v \<Rightarrow> v | None \<Rightarrow> price * 0.82);
                        new_upper = (case new_upper decision of
                                       Some v \<Rightarrow> v | None \<Rightarrow> price * 1.22)
                    in case builder of
                         None \<Rightarrow> (engine', entries)
                       | Some the_builder \<Rightarrow>
                          (case build_rebalance_group w the_builder new_lower new_upper position of
                             Inl e \<Rightarrow> (engine', entries)
                           | Inr signed_txns \<Rightarrow>
                              (let tx_id = submit_group w signed_txns in
                               if truthy tx_id
                               then (engine',
                                     DecisionLogger_log entries (time_logged w)
                                       (datetime_logged w) decision price tx_id)
                               else (engine',
                                     DecisionLogger_log entries (time_logged w)
                                       (datetime_logged w)
                                       (decision\<lparr> action := SKIP,
                                                  reason :=
                                                    reason decision @ [Lit '' (reverted)''] \<rparr>)
                                       price tx_id))))
                 else (engine',
                       DecisionLogger_log entries (time_logged w) (datetime_logged w)
                         decision price None)))"

subsection \<open>Quantities the properties below speak about\<close>

text \<open>The last hour of samples, their mean and their population variance.\<close>

definition recent_samples :: "real list \<Rightarrow> real list" where
  "recent_samples history = py_slice_from history (- 90)"

definition sample_mean :: "real list \<Rightarrow> real" where
  "sample_mean xs = sum_list xs / real (length xs)"

definition sample_variance :: "real list \<Rightarrow> real" where
  "sample_variance xs = sum_list (map (\<lambda>p. (p - sample_mean xs) ^ 2) xs) / real (length xs)"

text \<open>The hourly deviation \<^verbatim>\<open>hourly_std\<close> that \<^verbatim>\<open>predict_hours_in_range\<close> computes.\<close>

definition hourly_deviation :: "real list \<Rightarrow> real" where
  "hourly_deviation history =
     (let v = sample_variance (recent_samples history)
      in (if v > 0 then sqrt v else 0.001) * sqrt 90)"

text \<open>
  More dispersion, all else equal: the deviations of the most recent 90 samples from
  their mean are scaled by \<open>k\<close>; older samples stay.
\<close>

definition scale_dispersion :: "real \<Rightarrow> real list \<Rightarrow> real list" where
  "scale_dispersion k history =
     (let recent = recent_samples history; m = sample_mean recent
      in take (length history - length recent) history
           @ map (\<lambda>p. m + k * (p - m)) recent)"

text \<open>The distance from a price to the nearer of the two bounds.\<close>

definition nearest_bound_distance :: "real \<Rightarrow> real \<Rightarrow> real \<Rightarrow> real" where
  "nearest_bound_distance current lower upper = min \<bar>current - lower\<bar> \<bar>upper - current\<bar>"

text \<open>The call returned a dict with the given action.\<close>

definition emits :: "action \<Rightarrow> py_error + Decision \<Rightarrow> bool" where
  "emits a r = (case r of Inl e \<Rightarrow> False | Inr d \<Rightarrow> action d = a)"

subsection \<open>Sample inputs\<close>

definition creator_key :: bytes where
  "creator_key = replicate 32 1"

definition agent_key :: bytes where
  "agent_key = replicate 32 2"

definition stranger_key :: bytes where
  "stranger_key = replicate 32 3"

definition call_by :: "bytes \<Rightarrow> txn_context" where
  "call_by who = \<lparr> sender = who, creator_address = creator_key, latest_timestamp = 1700000000 \<rparr>"

text \<open>A vault with an authorised agent and 100 microAlgo and 50 micro-USDC on deposit.\<close>

definition funded_vault :: AegisPosition where
  "funded_vault =
     initialize\<lparr> AegisPosition.lower_bound := 140, AegisPosition.upper_bound := 220,
                 deposited_algo := 100, deposited_usdc := 50, total_deposits := 1,
                 AegisPosition.agent_address := agent_key, agent_authorized := 1 \<rparr>"

text \<open>An engine that has seen the price 0.21875 nine times and has not rebalanced yet.\<close>

definition steady_engine :: DecisionEngine where
  "steady_engine = DecisionEngine_init\<lparr> vol_model :=
     \<lparr> window = VOLATILITY_WINDOW, price_history = replicate 9 0.21875 \<rparr> \<rparr>"

definition sample_pool :: "string \<rightharpoonup> real" where
  "sample_pool = [''current_price'' \<mapsto> 0.25, ''fee_rate'' \<mapsto> 0.003]"

text \<open>
  Ten samples around 0.18: five one millionth below and five one millionth above, and
  five at 0.17 and five at 0.19.
\<close>

definition quiet_history :: "real list" where
  "quiet_history = replicate 5 (0.18 - 0.000001) @ replicate 5 (0.18 + 0.000001)"

definition lively_history :: "real list" where
  "lively_history = replicate 5 0.17 @ replicate 5 0.19"



section \<open>Properties of the vault contract\<close>

lemma succeeds_Inr: "succeeds (Inr x)"
  by (simp add: succeeds_def)

lemma succeeds_Inl: "\<not> succeeds (Inl e)"
  by (simp add: succeeds_def)

lemma sample_keys_distinct:
  "creator_key \<noteq> agent_key" "stranger_key \<noteq> creator_key" "stranger_key \<noteq> agent_key"
  by (simp_all add: creator_key_def agent_key_def stranger_key_def)

lemma sample_keys_length:
  "length creator_key = 32" "length agent_key = 32" "length stranger_key = 32"
  by (simp_all add: creator_key_def agent_key_def stranger_key_def)

subsection \<open>The agent slot stays well-formed\<close>

lemma initialize_slot_ok: "agent_slot_ok initialize"
  by (simp add: agent_slot_ok_def initialize_def)

lemma authorize_agent_slot_ok:
  "length agent = 32 \<Longrightarrow> authorize_agent ctx s agent = Inr s' \<Longrightarrow> agent_slot_ok s'"
  by (auto simp: authorize_agent_def agent_slot_ok_def split: if_splits)

lemma methods_keep_slot_ok:
  assumes "agent_slot_ok s"
  shows "set_position ctx s e l u c = Inr s' \<Longrightarrow> agent_slot_ok s'"
    and "revoke_agent ctx s = Inr s' \<Longrightarrow> agent_slot_ok s'"
    and "trigger_rebalance ctx s lo hi = Inr s' \<Longrightarrow> agent_slot_ok s'"
    and "deposit ctx s a b = Inr s' \<Longrightarrow> agent_slot_ok s'"
    and "withdraw ctx s a b = Inr s' \<Longrightarrow> agent_slot_ok s'"
    and "log_decision ctx s code = Inr s' \<Longrightarrow> agent_slot_ok s'"
  using assms
  by (auto simp: set_position_def revoke_agent_def trigger_rebalance_def deposit_def withdraw_def
      log_decision_def agent_slot_ok_def split: if_splits sum.splits)

subsection \<open>withdraw\<close>

text \<open>
  C1, as the code has it. A call of \<^verbatim>\<open>withdraw(algo_amount, usdc_amount)\<close> succeeds if and
  only if the sender is the creator, \<open>algo_amount \<le> deposited_algo\<close>,
  \<open>usdc_amount \<le> deposited_usdc\<close> and the counter \<open>total_withdrawals\<close> is below
  \<open>2^64 - 1\<close>, so that its increment does not overflow. A call whose sender is the
  authorised agent, when that is not the creator, always fails. A failing call leaves
  the whole state, and so \<open>deposited_algo\<close>, \<open>deposited_usdc\<close> and
  \<open>total_withdrawals\<close>, unchanged.
\<close>

theorem withdraw_guard:
  "(succeeds (withdraw ctx s algo_amount usdc_amount) \<longleftrightarrow>
      sender ctx = creator_address ctx \<and> algo_amount \<le> deposited_algo s
      \<and> usdc_amount \<le> deposited_usdc s \<and> unat (total_withdrawals s) + 1 < 2 ^ 64)
   \<and> (authorized_agent ctx s \<and> sender ctx \<noteq> creator_address ctx \<longrightarrow>
        \<not> succeeds (withdraw ctx s algo_amount usdc_amount))
   \<and> (\<not> succeeds (withdraw ctx s algo_amount usdc_amount) \<longrightarrow>
        state_after s (withdraw ctx s algo_amount usdc_amount) = s)"
  by (auto simp: withdraw_def u64_add_def u64_sub_def state_after_def succeeds_def
      split: sum.splits if_splits)

text \<open>
  The creator withdraws everything from the funded vault; the same call signed by the
  authorised agent fails and changes nothing.
\<close>

theorem withdraw_guard_witness:
  "succeeds (withdraw (call_by creator_key) funded_vault 100 50)
   \<and> authorized_agent (call_by agent_key) funded_vault
   \<and> sender (call_by agent_key) \<noteq> creator_address (call_by agent_key)
   \<and> \<not> succeeds (withdraw (call_by agent_key) funded_vault 100 50)
   \<and> state_after funded_vault (withdraw (call_by agent_key) funded_vault 100 50) = funded_vault"
  using withdraw_guard [of "call_by creator_key" funded_vault 100 50]
    withdraw_guard [of "call_by agent_key" funded_vault 100 50] sample_keys_distinct
  by (simp add: call_by_def funded_vault_def initialize_def authorized_agent_def)

text \<open>
  C1 as the spec states it fails where the counter is full: the creator asks for nothing
  more than is deposited, and the call fails on \<^verbatim>\<open>total_withdrawals + UInt64(1)\<close>.
\<close>

theorem withdraw_counter_overflow:
  "sender (call_by creator_key) = creator_address (call_by creator_key)
   \<and> 0 \<le> deposited_algo (funded_vault\<lparr>total_withdrawals := 18446744073709551615\<rparr>)
   \<and> 0 \<le> deposited_usdc (funded_vault\<lparr>total_withdrawals := 18446744073709551615\<rparr>)
   \<and> withdraw (call_by creator_key) (funded_vault\<lparr>total_withdrawals := 18446744073709551615\<rparr>) 0 0
       = Inl Overflow"
  by (simp add: withdraw_def u64_add_def u64_sub_def call_by_def funded_vault_def initialize_def)

subsection \<open>trigger_rebalance\<close>

text \<open>
  C9, as the code has it. For a caller that is the creator or the authorised agent, and
  for every pair of arguments, \<^verbatim>\<open>trigger_rebalance\<close> succeeds whenever neither
  \<open>total_rebalances\<close> nor \<open>total_decisions\<close> is at \<open>2^64 - 1\<close>: it stores
  \<open>lower_bound = new_lower\<close> and \<open>upper_bound = new_upper\<close> with no check of their
  order or sign, adds exactly 1 to both counters, sets \<open>last_decision_action\<close> to 1 and
  both timestamps to the latest one. The state is one the contract can be in: an
  authorised agent's stored address has 32 bytes.
\<close>

theorem trigger_rebalance_unvalidated:
  assumes "agent_slot_ok s"
    and "sender ctx = creator_address ctx \<or> authorized_agent ctx s"
    and "unat (AegisPosition.total_rebalances s) + 1 < 2 ^ 64"
    and "unat (total_decisions s) + 1 < 2 ^ 64"
  shows "trigger_rebalance ctx s lo hi =
           Inr (s\<lparr> AegisPosition.lower_bound := lo,
                    AegisPosition.upper_bound := hi,
                    AegisPosition.total_rebalances := AegisPosition.total_rebalances s + 1,
                    last_rebalance_timestamp := latest_timestamp ctx,
                    total_decisions := total_decisions s + 1,
                    last_decision_timestamp := latest_timestamp ctx,
                    last_decision_action := 1 \<rparr>)
         \<and> unat (AegisPosition.total_rebalances s + 1) = unat (AegisPosition.total_rebalances s) + 1
         \<and> unat (total_decisions s + 1) = unat (total_decisions s) + 1"
  using assms
  by (auto simp: trigger_rebalance_def sender_is_agent_def Account_def authorized_agent_def
      agent_slot_ok_def u64_add_def unat_word_ariths split: sum.splits if_splits)

text \<open>
  The agent stores a range whose lower bound 220 is above its upper bound 0: the
  contract does not enforce \<open>lower_bound < upper_bound\<close>.
\<close>

theorem trigger_rebalance_unvalidated_witness:
  "agent_slot_ok funded_vault
   \<and> authorized_agent (call_by agent_key) funded_vault
   \<and> trigger_rebalance (call_by agent_key) funded_vault 220 0 =
       Inr (funded_vault\<lparr> AegisPosition.lower_bound := 220,
                          AegisPosition.upper_bound := 0,
                          AegisPosition.total_rebalances := 1,
                          last_rebalance_timestamp := 1700000000,
                          total_decisions := 1,
                          last_decision_timestamp := 1700000000,
                          last_decision_action := 1 \<rparr>)"
proof -
  have ok: "agent_slot_ok funded_vault"
    by (simp add: agent_slot_ok_def funded_vault_def initialize_def sample_keys_length)
  have who: "sender (call_by agent_key) = creator_address (call_by agent_key)
             \<or> authorized_agent (call_by agent_key) funded_vault"
    by (simp add: authorized_agent_def call_by_def funded_vault_def initialize_def)
  have r: "unat (AegisPosition.total_rebalances funded_vault) + 1 < 2 ^ 64"
    by (simp add: funded_vault_def initialize_def)
  have d: "unat (total_decisions funded_vault) + 1 < 2 ^ 64"
    by (simp add: funded_vault_def initialize_def)
  show ?thesis
    using trigger_rebalance_unvalidated [OF ok who r d, of 220 0] ok
    by (simp add: authorized_agent_def call_by_def funded_vault_def initialize_def)
qed

text \<open>
  C9 as the spec states it fails where a counter is full: the creator's call fails on
  \<^verbatim>\<open>total_rebalances + UInt64(1)\<close>.
\<close>

theorem trigger_rebalance_counter_overflow:
  "sender (call_by creator_key) = creator_address (call_by creator_key)
   \<and> \<not> succeeds (trigger_rebalance (call_by creator_key)
         (funded_vault\<lparr>AegisPosition.total_rebalances := 18446744073709551615\<rparr>) 205 305)"
  by (simp add: trigger_rebalance_def sender_is_agent_def Account_def u64_add_def succeeds_def
      call_by_def funded_vault_def initialize_def sample_keys_length sample_keys_distinct)

subsection \<open>deposit\<close>

text \<open>
  C10, as the code has it. \<^verbatim>\<open>deposit(algo_amount, usdc_amount)\<close> checks nothing about
  the sender. For every sender it succeeds if and only if none of the three additions
  overflows 64 bits, and then it adds the amounts to \<open>deposited_algo\<close> and
  \<open>deposited_usdc\<close> and exactly 1 to \<open>total_deposits\<close>.
\<close>

theorem deposit_any_sender:
  "(succeeds (deposit ctx s algo_amount usdc_amount) \<longleftrightarrow>
      unat (deposited_algo s) + unat algo_amount < 2 ^ 64
      \<and> unat (deposited_usdc s) + unat usdc_amount < 2 ^ 64
      \<and> unat (total_deposits s) + 1 < 2 ^ 64)
   \<and> (succeeds (deposit ctx s algo_amount usdc_amount) \<longrightarrow>
        deposit ctx s algo_amount usdc_amount =
          Inr (s\<lparr> deposited_algo := deposited_algo s + algo_amount,
                   deposited_usdc := deposited_usdc s + usdc_amount,
                   total_deposits := total_deposits s + 1 \<rparr>)
        \<and> unat (deposited_algo s + algo_amount) = unat (deposited_algo s) + unat algo_amount
        \<and> unat (deposited_usdc s + usdc_amount) = unat (deposited_usdc s) + unat usdc_amount
        \<and> unat (total_deposits s + 1) = unat (total_deposits s) + 1)"
  by (auto simp: deposit_def u64_add_def succeeds_def unat_word_ariths split: sum.splits if_splits)

text \<open>A sender that is neither the creator nor the agent deposits into the funded vault.\<close>

theorem deposit_any_sender_witness:
  "sender (call_by stranger_key) \<noteq> creator_address (call_by stranger_key)
   \<and> \<not> authorized_agent (call_by stranger_key) funded_vault
   \<and> deposit (call_by stranger_key) funded_vault 7 9 =
       Inr (funded_vault\<lparr> deposited_algo := 107, deposited_usdc := 59, total_deposits := 2 \<rparr>)"
  using deposit_any_sender [of "call_by stranger_key" funded_vault 7 9] sample_keys_distinct
  by (simp add: call_by_def funded_vault_def initialize_def authorized_agent_def)

text \<open>
  C10 as the spec states it fails where a sum overflows: with 100 microAlgo recorded, a
  deposit of \<open>2^64 - 1\<close> fails.
\<close>

theorem deposit_overflow:
  "\<not> succeeds (deposit (call_by stranger_key) funded_vault 18446744073709551615 0)"
  by (simp add: deposit_def u64_add_def succeeds_def funded_vault_def initialize_def)

section \<open>Properties of the decision engine\<close>

subsection \<open>The branches of evaluate\<close>

lemma py_int_nonneg: "0 \<le> x \<Longrightarrow> py_int x = \<lfloor>x\<rfloor>"
  by (simp add: py_int_def)

lemma evaluate_cooldown:
  assumes "now - last_rebalance_time engine < real_of_int REBALANCE_COOLDOWN_SECONDS"
    and "0 < last_rebalance_time engine"
  shows "evaluate engine now stamp px position pool_state =
     (Inr \<lparr> action = SKIP,
            reason = [Lit ''Cooldown: '',
                      IntDec (py_int (real_of_int REBALANCE_COOLDOWN_SECONDS
                                       - (now - last_rebalance_time engine))),
                      Lit ''s remaining (min '',
                      IntDec REBALANCE_COOLDOWN_SECONDS, Lit ''s between rebalances)''],
            fee_projection = 0, swap_cost = estimate_swap_cost (capital_usdc position) 0.5,
            hours_in_range = 0, confidence = 0.3, new_lower = None, new_upper = None \<rparr>,
      engine\<lparr> vol_model := update (vol_model engine) px \<rparr>)"
  using assms by (simp add: evaluate_def Let_def)

lemma boundary_distance_le:
  assumes "b = lower_bound position \<or> b = upper_bound position" and "0 < b"
  shows "boundary_distance position px \<le> \<bar>px - b\<bar> / b"
  using assms by (auto simp: boundary_distance_def Let_def)

lemma evaluate_buffer:
  assumes "\<not> (now - last_rebalance_time engine < real_of_int REBALANCE_COOLDOWN_SECONDS
              \<and> 0 < last_rebalance_time engine)"
    and "\<not> (lower_bound position \<le> px \<and> px \<le> upper_bound position)"
    and "boundary_distance position px < BUFFER_ZONE_PCT / 100"
  shows "evaluate engine now stamp px position pool_state =
     (Inr \<lparr> action = HOLD,
            reason = [Lit ''Buffer zone: price '',
                      FloatFixed 1 (boundary_distance position px * 100),
                      Lit ''% from boundary (< '', FloatRepr BUFFER_ZONE_PCT,
                      Lit ''% threshold)''],
            fee_projection = 0, swap_cost = estimate_swap_cost (capital_usdc position) 0.5,
            hours_in_range = 0, confidence = 0.6, new_lower = None, new_upper = None \<rparr>,
      engine\<lparr> vol_model := update (vol_model engine) px \<rparr>)"
  using assms by (simp add: evaluate_def Let_def)

lemma snd_evaluate:
  "snd (evaluate engine now stamp px position pool_state) =
     engine\<lparr> vol_model := update (vol_model engine) px,
             last_rebalance_time :=
               (if emits REBALANCE (fst (evaluate engine now stamp px position pool_state))
                then stamp else last_rebalance_time engine) \<rparr>"
  by (simp add: evaluate_def Let_def emits_def split: option.splits)

lemma evaluate_out_of_range:
  assumes "\<not> (now - last_rebalance_time engine < real_of_int REBALANCE_COOLDOWN_SECONDS
              \<and> 0 < last_rebalance_time engine)"
    and "\<not> (lower_bound position \<le> px \<and> px \<le> upper_bound position)"
    and "\<not> boundary_distance position px < BUFFER_ZONE_PCT / 100"
    and "pool_state ''fee_rate'' = Some fee_rate"
  shows "fst (evaluate engine now stamp px position pool_state) =
     (if capital_usdc position * fee_rate * 7
           > estimate_swap_cost (capital_usdc position) 0.5 * COST_BENEFIT_MULTIPLIER
      then Inr \<lparr> action = REBALANCE,
                 reason = [Lit ''Out of range. Projected +$'',
                           FloatFixed 2 (capital_usdc position * fee_rate * 7),
                           Lit ''/wk > cost $'',
                           FloatFixed 2 (estimate_swap_cost (capital_usdc position) 0.5)],
                 fee_projection = capital_usdc position * fee_rate * 7,
                 swap_cost = estimate_swap_cost (capital_usdc position) 0.5,
                 hours_in_range = 0, confidence = 0.85,
                 new_lower = Some (px * 0.82), new_upper = Some (px * 1.22) \<rparr>
      else Inr \<lparr> action = SKIP,
                 reason = [Lit ''Out of range, but cost $'',
                           FloatFixed 2 (estimate_swap_cost (capital_usdc position) 0.5),
                           Lit '' > benefit $'',
                           FloatFixed 2 (capital_usdc position * fee_rate * 7)],
                 fee_projection = capital_usdc position * fee_rate * 7,
                 swap_cost = estimate_swap_cost (capital_usdc position) 0.5,
                 hours_in_range = 0, confidence = 0.6,
                 new_lower = None, new_upper = None \<rparr>)"
  using assms by (simp add: evaluate_def Let_def)

lemma bounds_of_decision:
  assumes "fst (evaluate engine now stamp px position pool_state) = Inr d"
  shows "new_lower d = (if action d = REBALANCE \<and> \<not> (lower_bound position \<le> px \<and> px \<le> upper_bound position)
                        then Some (px * 0.82) else None)"
    and "new_upper d = (if action d = REBALANCE \<and> \<not> (lower_bound position \<le> px \<and> px \<le> upper_bound position)
                        then Some (px * 1.22) else None)"
  using assms by (auto simp: evaluate_def Let_def split: option.splits if_splits)

subsection \<open>The volatility model on a constant history\<close>

lemma predict_hours_alt:
  "predict_hours_in_range m c l u =
     (if length (price_history m) < 10 then 12
      else if hourly_deviation (price_history m) < 0.0001 then 48
      else min ((min (c - l) (u - c) / hourly_deviation (price_history m)) ^ 2) 168)"
  by (simp add: predict_hours_in_range_def hourly_deviation_def sample_variance_def
      sample_mean_def recent_samples_def Let_def)

lemma sqrt_90_ge_one: "1 \<le> sqrt 90"
  by simp

lemma sqrt_90_not_small: "\<not> 10 * sqrt 90 < 1"
  using sqrt_90_ge_one by linarith

lemma steady_history:
  "price_history (update (vol_model steady_engine) x) = replicate 9 (7 / 32) @ [x]"
  by (simp add: update_def steady_engine_def DecisionEngine_init_def VolatilityModel_init_def
      Let_def VOLATILITY_WINDOW_def)

lemma constant_recent:
  "n < 90 \<Longrightarrow> recent_samples (replicate n x @ [x]) = replicate n x @ [x]"
  by (simp add: recent_samples_def py_slice_from_def)

lemma constant_mean: "sample_mean (replicate n x @ [x]) = x"
proof -
  have "sum_list (replicate n x @ [x]) = (real n + 1) * x"
    by (simp add: sum_list_replicate algebra_simps)
  then show ?thesis
    by (simp add: sample_mean_def add.commute)
qed

lemma constant_variance: "sample_variance (replicate n x @ [x]) = 0"
  unfolding sample_variance_def constant_mean by (simp add: sum_list_replicate)

lemma constant_deviation:
  "n < 90 \<Longrightarrow> hourly_deviation (replicate n x @ [x]) = sqrt 90 / 1000"
  by (simp add: hourly_deviation_def constant_recent constant_variance)

lemma steady_predict:
  "predict_hours_in_range (update (vol_model steady_engine) (7 / 32)) (7 / 32) (7 / 50) (11 / 50)
     = 5 / 288"
proof -
  have d: "hourly_deviation (replicate 9 (7 / 32) @ [7 / 32]) = sqrt 90 / 1000"
    by (rule constant_deviation) simp
  have sq: "((1 / 800) / (sqrt 90 / 1000)) ^ 2 = (5 / 288 :: real)"
    by (simp add: power_divide power_mult_distrib)
  have m: "min (7 / 32 - 7 / 50) (11 / 50 - 7 / 32) = (1 / 800 :: real)"
    by simp
  show ?thesis
    unfolding predict_hours_alt steady_history d m sq
    using sqrt_90_not_small by simp
qed

subsection \<open>Sample evaluations\<close>

lemma sample_pool_fee: "sample_pool ''fee_rate'' = Some 0.003"
  by (simp add: sample_pool_def)

lemma evaluate_steady:
  "fst (evaluate steady_engine 0 0 (7 / 32) PositionState_init sample_pool) =
     Inr \<lparr> action = REBALANCE,
           reason = [Lit ''Preemptive: '', FloatFixed 1 (5 / 288),
                     Lit ''h to boundary, net +$'', FloatFixed 2 84.996],
           fee_projection = 105, swap_cost = 20.004,
           hours_in_range = 5 / 288, confidence = 0.7,
           new_lower = None, new_upper = None \<rparr>"
proof -
  have last: "last_rebalance_time steady_engine = 0"
    by (simp add: steady_engine_def DecisionEngine_init_def)
  show ?thesis
    by (simp add: evaluate_def Let_def last steady_predict PositionState_init_def sample_pool_fee
        estimate_swap_cost_def MIN_HOURS_IN_RANGE_def COST_BENEFIT_MULTIPLIER_def
        REBALANCE_COOLDOWN_SECONDS_def)
qed

lemma evaluate_sample_out_of_range:
  "fst (evaluate DecisionEngine_init 1600 1601 (1 / 4) PositionState_init sample_pool) =
     Inr \<lparr> action = REBALANCE,
           reason = [Lit ''Out of range. Projected +$'', FloatFixed 2 105,
                     Lit ''/wk > cost $'', FloatFixed 2 (5001 / 250)],
           fee_projection = 105, swap_cost = 5001 / 250,
           hours_in_range = 0, confidence = 17 / 20,
           new_lower = Some (41 / 200), new_upper = Some (61 / 200) \<rparr>"
proof -
  have a: "\<not> (1600 - last_rebalance_time DecisionEngine_init < real_of_int REBALANCE_COOLDOWN_SECONDS
              \<and> 0 < last_rebalance_time DecisionEngine_init)"
    by (simp add: DecisionEngine_init_def)
  have b: "\<not> (lower_bound PositionState_init \<le> 1 / 4 \<and> 1 / 4 \<le> upper_bound PositionState_init)"
    by (simp add: PositionState_init_def)
  have c: "\<not> boundary_distance PositionState_init (1 / 4) < BUFFER_ZONE_PCT / 100"
    by (simp add: boundary_distance_def PositionState_init_def BUFFER_ZONE_PCT_def)
  show ?thesis
    using evaluate_out_of_range [where pool_state = sample_pool and stamp = 1601,
        OF a b c sample_pool_fee]
    by (simp add: estimate_swap_cost_def COST_BENEFIT_MULTIPLIER_def PositionState_init_def)
qed

lemma snd_evaluate_sample:
  "snd (evaluate DecisionEngine_init 1600 1601 (1 / 4) PositionState_init sample_pool) =
     \<lparr> vol_model = \<lparr> window = 24, price_history = [1 / 4] \<rparr>, last_rebalance_time = 1601 \<rparr>"
proof -
  have "snd (evaluate DecisionEngine_init 1600 1601 (1 / 4) PositionState_init sample_pool) =
          DecisionEngine_init\<lparr> vol_model := update (vol_model DecisionEngine_init) (1 / 4),
                               last_rebalance_time := 1601 \<rparr>"
    by (simp add: snd_evaluate evaluate_sample_out_of_range emits_def)
  then show ?thesis
    by (simp add: DecisionEngine_init_def VolatilityModel_init_def VOLATILITY_WINDOW_def
        update_def Let_def)
qed

subsection \<open>Cooldown\<close>

text \<open>
  C4. Whenever a REBALANCE has been emitted (\<open>last_rebalance_time > 0\<close>) and the current
  time is after \<open>last_rebalance_time\<close> by less than \<open>REBALANCE_COOLDOWN_SECONDS\<close>,
  \<^verbatim>\<open>evaluate\<close> returns SKIP whatever the price, the position and the pool state are, and
  the remaining time in its reason is at most \<open>REBALANCE_COOLDOWN_SECONDS\<close> (and not
  negative).
\<close>

theorem cooldown_skip:
  assumes "0 < last_rebalance_time engine"
    and "last_rebalance_time engine \<le> now"
    and "now - last_rebalance_time engine < real_of_int REBALANCE_COOLDOWN_SECONDS"
  shows "\<exists>remaining.
           fst (evaluate engine now stamp px position pool_state) =
             Inr \<lparr> action = SKIP,
                   reason = [Lit ''Cooldown: '', IntDec remaining, Lit ''s remaining (min '',
                             IntDec REBALANCE_COOLDOWN_SECONDS, Lit ''s between rebalances)''],
                   fee_projection = 0,
                   swap_cost = estimate_swap_cost (capital_usdc position) 0.5,
                   hours_in_range = 0, confidence = 0.3,
                   new_lower = None, new_upper = None \<rparr>
           \<and> remaining = py_int (real_of_int REBALANCE_COOLDOWN_SECONDS
                                  - (now - last_rebalance_time engine))
           \<and> 0 \<le> remaining \<and> remaining \<le> REBALANCE_COOLDOWN_SECONDS"
proof -
  let ?left = "real_of_int REBALANCE_COOLDOWN_SECONDS - (now - last_rebalance_time engine)"
  have pos: "0 \<le> ?left" using assms(3) by simp
  have le: "?left \<le> real_of_int REBALANCE_COOLDOWN_SECONDS" using assms(2) by simp
  have "py_int ?left = \<lfloor>?left\<rfloor>" using pos by (rule py_int_nonneg)
  moreover have "0 \<le> \<lfloor>?left\<rfloor>" using pos by simp
  moreover have "\<lfloor>?left\<rfloor> \<le> REBALANCE_COOLDOWN_SECONDS"
    using le by (metis floor_mono floor_of_int)
  ultimately show ?thesis
    using evaluate_cooldown [OF assms(3) assms(1)] by simp
qed

text \<open>Ten minutes after a rebalance at time 1000: SKIP with 1200 seconds remaining.\<close>

theorem cooldown_skip_witness:
  "fst (evaluate (DecisionEngine_init\<lparr>last_rebalance_time := 1000\<rparr>) 1600 1600 0.25
          PositionState_init sample_pool) =
     Inr \<lparr> action = SKIP,
           reason = [Lit ''Cooldown: '', IntDec 1200, Lit ''s remaining (min '',
                     IntDec 1800, Lit ''s between rebalances)''],
           fee_projection = 0, swap_cost = 20.004,
           hours_in_range = 0, confidence = 0.3,
           new_lower = None, new_upper = None \<rparr>"
  using cooldown_skip [where engine = "DecisionEngine_init\<lparr>last_rebalance_time := 1000\<rparr>"
      and now = 1600 and stamp = 1600 and px = "0.25" and position = PositionState_init
      and pool_state = sample_pool]
  by (simp add: REBALANCE_COOLDOWN_SECONDS_def py_int_def estimate_swap_cost_def
      PositionState_init_def)

subsection \<open>Buffer zone\<close>

text \<open>
  C3, as the code has it. When the cooldown guard does not fire and the price is outside
  \<open>[lower_bound, upper_bound]\<close>, and a bound \<open>b > 0\<close> of the range (the nearer one in
  particular) has \<open>|price - b| / b < BUFFER_ZONE_PCT / 100\<close>, \<^verbatim>\<open>evaluate\<close> returns HOLD
  with the buffer-zone reason. The guard is not applied to a price inside the range.
\<close>

theorem buffer_zone_hold:
  assumes "\<not> (now - last_rebalance_time engine < real_of_int REBALANCE_COOLDOWN_SECONDS
              \<and> 0 < last_rebalance_time engine)"
    and "\<not> (lower_bound position \<le> px \<and> px \<le> upper_bound position)"
    and "b = lower_bound position \<or> b = upper_bound position"
    and "0 < b"
    and "\<bar>px - b\<bar> / b < BUFFER_ZONE_PCT / 100"
  shows "fst (evaluate engine now stamp px position pool_state) =
     Inr \<lparr> action = HOLD,
           reason = [Lit ''Buffer zone: price '',
                     FloatFixed 1 (boundary_distance position px * 100),
                     Lit ''% from boundary (< '', FloatRepr BUFFER_ZONE_PCT,
                     Lit ''% threshold)''],
           fee_projection = 0, swap_cost = estimate_swap_cost (capital_usdc position) 0.5,
           hours_in_range = 0, confidence = 0.6, new_lower = None, new_upper = None \<rparr>"
proof -
  have "boundary_distance position px < BUFFER_ZONE_PCT / 100"
    using boundary_distance_le [OF assms(3) assms(4), of px] assms(5) by (rule le_less_trans)
  then show ?thesis
    using evaluate_buffer [OF assms(1) assms(2)] by simp
qed

text \<open>The price 0.225 is 2.27% above the upper bound 0.22: HOLD.\<close>

theorem buffer_zone_hold_witness:
  "fst (evaluate DecisionEngine_init 1600 1600 0.225 PositionState_init sample_pool) =
     Inr \<lparr> action = HOLD,
           reason = [Lit ''Buffer zone: price '', FloatFixed 1 (25 / 11),
                     Lit ''% from boundary (< '', FloatRepr 3, Lit ''% threshold)''],
           fee_projection = 0, swap_cost = 20.004,
           hours_in_range = 0, confidence = 0.6, new_lower = None, new_upper = None \<rparr>"
proof -
  have a: "\<not> (1600 - last_rebalance_time DecisionEngine_init < real_of_int REBALANCE_COOLDOWN_SECONDS
              \<and> 0 < last_rebalance_time DecisionEngine_init)"
    by (simp add: DecisionEngine_init_def)
  have b: "\<not> (lower_bound PositionState_init \<le> 0.225 \<and> 0.225 \<le> upper_bound PositionState_init)"
    by (simp add: PositionState_init_def)
  have c: "0.22 = lower_bound PositionState_init \<or> 0.22 = upper_bound PositionState_init"
    by (simp add: PositionState_init_def)
  have d: "(0::real) < 0.22" by simp
  have e: "\<bar>0.225 - 0.22\<bar> / 0.22 < BUFFER_ZONE_PCT / 100"
    by (simp add: BUFFER_ZONE_PCT_def)
  show ?thesis
    using buffer_zone_hold [OF a b c d e, of 1600 sample_pool]
    by (simp add: boundary_distance_def estimate_swap_cost_def PositionState_init_def
        BUFFER_ZONE_PCT_def)
qed

text \<open>
  C3 as the spec states it fails inside the range: the price 0.21875 is within 0.57% of
  the upper bound 0.22, no cooldown is active, and \<^verbatim>\<open>evaluate\<close> returns REBALANCE, not
  HOLD.
\<close>

theorem near_bound_in_range_rebalances:
  "\<not> (0 - last_rebalance_time steady_engine < real_of_int REBALANCE_COOLDOWN_SECONDS
       \<and> 0 < last_rebalance_time steady_engine)
   \<and> \<bar>7 / 32 - upper_bound PositionState_init\<bar> / upper_bound PositionState_init
       < BUFFER_ZONE_PCT / 100
   \<and> emits REBALANCE (fst (evaluate steady_engine 0 0 (7 / 32) PositionState_init sample_pool))
   \<and> \<not> emits HOLD (fst (evaluate steady_engine 0 0 (7 / 32) PositionState_init sample_pool))"
proof -
  have "last_rebalance_time steady_engine = 0"
    by (simp add: steady_engine_def DecisionEngine_init_def)
  moreover have "\<bar>7 / 32 - upper_bound PositionState_init\<bar> / upper_bound PositionState_init
                   < BUFFER_ZONE_PCT / 100"
    by (simp add: PositionState_init_def BUFFER_ZONE_PCT_def)
  moreover have "emits REBALANCE
                   (fst (evaluate steady_engine 0 0 (7 / 32) PositionState_init sample_pool))"
    by (simp add: evaluate_steady emits_def)
  moreover have "\<not> emits HOLD
                   (fst (evaluate steady_engine 0 0 (7 / 32) PositionState_init sample_pool))"
    by (simp add: evaluate_steady emits_def)
  ultimately show ?thesis by simp
qed

subsection \<open>Out of range\<close>

text \<open>
  C5. When the price is outside \<open>[lower_bound, upper_bound]\<close>, beyond the buffer zone,
  and no cooldown is active, \<^verbatim>\<open>evaluate\<close> emits REBALANCE exactly when
  \<open>7 * capital * fee_rate\<close> exceeds \<open>swap_cost * COST_BENEFIT_MULTIPLIER\<close>, then with
  \<open>new_lower = price * 0.82\<close> and \<open>new_upper = price * 1.22\<close>, and it emits SKIP
  otherwise.
\<close>

theorem out_of_range_decision:
  assumes "\<not> (now - last_rebalance_time engine < real_of_int REBALANCE_COOLDOWN_SECONDS
              \<and> 0 < last_rebalance_time engine)"
    and "\<not> (lower_bound position \<le> px \<and> px \<le> upper_bound position)"
    and "\<not> boundary_distance position px < BUFFER_ZONE_PCT / 100"
    and "pool_state ''fee_rate'' = Some fee_rate"
  shows "\<exists>d. fst (evaluate engine now stamp px position pool_state) = Inr d
          \<and> (action d = REBALANCE \<longleftrightarrow>
               7 * capital_usdc position * fee_rate
                 > estimate_swap_cost (capital_usdc position) 0.5 * COST_BENEFIT_MULTIPLIER)
          \<and> (if action d = REBALANCE
              then new_lower d = Some (px * 0.82) \<and> new_upper d = Some (px * 1.22)
              else action d = SKIP \<and> new_lower d = None \<and> new_upper d = None)"
  using evaluate_out_of_range [where pool_state = pool_state and stamp = stamp, OF assms]
  by (simp add: mult.commute mult.left_commute)

text \<open>The price 0.25 with capital 5000 and fee rate 0.003: REBALANCE to 0.205 and 0.305.\<close>

theorem out_of_range_decision_witness:
  "\<exists>d. fst (evaluate DecisionEngine_init 1600 1600 0.25 PositionState_init sample_pool) = Inr d
     \<and> action d = REBALANCE \<and> new_lower d = Some 0.205 \<and> new_upper d = Some 0.305"
proof -
  have a: "\<not> (1600 - last_rebalance_time DecisionEngine_init < real_of_int REBALANCE_COOLDOWN_SECONDS
              \<and> 0 < last_rebalance_time DecisionEngine_init)"
    by (simp add: DecisionEngine_init_def)
  have b: "\<not> (lower_bound PositionState_init \<le> 0.25 \<and> 0.25 \<le> upper_bound PositionState_init)"
    by (simp add: PositionState_init_def)
  have c: "\<not> boundary_distance PositionState_init 0.25 < BUFFER_ZONE_PCT / 100"
    by (simp add: boundary_distance_def PositionState_init_def BUFFER_ZONE_PCT_def)
  have w: "7 * capital_usdc PositionState_init * 0.003
             > estimate_swap_cost (capital_usdc PositionState_init) 0.5 * COST_BENEFIT_MULTIPLIER"
    by (simp add: estimate_swap_cost_def COST_BENEFIT_MULTIPLIER_def PositionState_init_def)
  show ?thesis
    using out_of_range_decision [where pool_state = sample_pool and stamp = 1600,
        OF a b c sample_pool_fee] w
    by auto
qed

subsection \<open>New bounds\<close>

text \<open>
  C2, as the code has it. A dict returned by \<^verbatim>\<open>evaluate\<close> has the keys \<open>new_lower\<close> and
  \<open>new_upper\<close> exactly when its action is REBALANCE and the price is outside
  \<open>[lower_bound, upper_bound]\<close>; they are then \<open>price * 0.82\<close> and \<open>price * 1.22\<close>, so
  \<open>new_lower < new_upper\<close> and both are strictly positive whenever the price is
  positive. The REBALANCE emitted for a price inside the range has neither key, and a dict
  with any other action has neither.
\<close>

theorem rebalance_bounds:
  assumes "fst (evaluate engine now stamp px position pool_state) = Inr d"
  shows "(new_lower d \<noteq> None \<longleftrightarrow>
            action d = REBALANCE \<and> \<not> (lower_bound position \<le> px \<and> px \<le> upper_bound position))
       \<and> (new_upper d \<noteq> None \<longleftrightarrow>
            action d = REBALANCE \<and> \<not> (lower_bound position \<le> px \<and> px \<le> upper_bound position))
       \<and> (action d = REBALANCE \<and> \<not> (lower_bound position \<le> px \<and> px \<le> upper_bound position)
            \<longrightarrow> new_lower d = Some (px * 0.82) \<and> new_upper d = Some (px * 1.22)
                \<and> (0 < px \<longrightarrow> px * 0.82 < px * 1.22 \<and> 0 < px * 0.82 \<and> 0 < px * 1.22))
       \<and> (action d \<noteq> REBALANCE \<longrightarrow> new_lower d = None \<and> new_upper d = None)"
proof (cases "action d = REBALANCE
    \<and> \<not> (lower_bound position \<le> px \<and> px \<le> upper_bound position)")
  case True
  then show ?thesis using bounds_of_decision [OF assms] by simp
next
  case False
  then show ?thesis using bounds_of_decision [OF assms] by auto
qed

text \<open>The out-of-range REBALANCE at the price 0.25 carries 0.205 and 0.305.\<close>

theorem rebalance_bounds_witness:
  "\<exists>d. fst (evaluate DecisionEngine_init 1600 1601 (1 / 4) PositionState_init sample_pool) = Inr d
     \<and> action d = REBALANCE
     \<and> \<not> (lower_bound PositionState_init \<le> 1 / 4 \<and> 1 / 4 \<le> upper_bound PositionState_init)
     \<and> new_lower d = Some 0.205 \<and> new_upper d = Some 0.305
     \<and> (0.205::real) < 0.305 \<and> (0::real) < 0.205"
proof -
  have out: "\<not> (lower_bound PositionState_init \<le> 1 / 4 \<and> 1 / 4 \<le> upper_bound PositionState_init)"
    by (simp add: PositionState_init_def)
  show ?thesis
    using rebalance_bounds [OF evaluate_sample_out_of_range] out
    by (simp add: evaluate_sample_out_of_range)
qed

text \<open>
  C2 as the spec states it fails for the preemptive REBALANCE: in range, close to the
  upper bound, the returned dict has the action REBALANCE and no new bounds.
\<close>

theorem preemptive_rebalance_without_bounds:
  "emits REBALANCE (fst (evaluate steady_engine 0 0 (7 / 32) PositionState_init sample_pool))
   \<and> (\<exists>d. fst (evaluate steady_engine 0 0 (7 / 32) PositionState_init sample_pool) = Inr d
          \<and> action d = REBALANCE \<and> new_lower d = None \<and> new_upper d = None)"
  by (simp add: evaluate_steady emits_def)

subsection \<open>What evaluate mutates\<close>

text \<open>
  C6, as the code has it. A call of \<^verbatim>\<open>evaluate\<close> changes the engine in two places only.
  It always stores the price in the volatility model's sample window
  (\<^verbatim>\<open>vol_model.update(price)\<close>: the price is appended, the oldest samples beyond
  \<open>window * 90\<close> are dropped, \<open>window\<close> itself stays). It sets \<open>last_rebalance_time\<close>
  to the time of the decision when the returned action is REBALANCE, and leaves it as it
  was otherwise.
\<close>

theorem evaluate_frame:
  "snd (evaluate engine now stamp px position pool_state) =
     engine\<lparr> vol_model := update (vol_model engine) px,
             last_rebalance_time :=
               (if emits REBALANCE (fst (evaluate engine now stamp px position pool_state))
                then stamp else last_rebalance_time engine) \<rparr>
   \<and> window (update (vol_model engine) px) = window (vol_model engine)
   \<and> price_history (update (vol_model engine) px) =
       (if int (length (price_history (vol_model engine) @ [px])) > window (vol_model engine) * 90
        then py_slice_from (price_history (vol_model engine) @ [px])
               (- (window (vol_model engine) * 90))
        else price_history (vol_model engine) @ [px])"
  by (simp add: snd_evaluate update_def Let_def)

text \<open>A fresh engine after the REBALANCE at the price 0.25, decided at time 1601.\<close>

theorem evaluate_frame_witness:
  "snd (evaluate DecisionEngine_init 1600 1601 (1 / 4) PositionState_init sample_pool) =
     \<lparr> vol_model = \<lparr> window = 24, price_history = [1 / 4] \<rparr>, last_rebalance_time = 1601 \<rparr>"
  using evaluate_frame [of DecisionEngine_init 1600 1601 "1 / 4" PositionState_init sample_pool]
  by (simp add: snd_evaluate_sample)

text \<open>
  C6 as the spec states it fails on every call: the sample window of a fresh engine is
  empty before the call and holds the price after it.
\<close>

theorem evaluate_changes_sample_window:
  "price_history (vol_model (snd (evaluate DecisionEngine_init 1600 1601 (1 / 4)
       PositionState_init sample_pool)))
     \<noteq> price_history (vol_model DecisionEngine_init)"
  by (simp add: snd_evaluate update_def Let_def DecisionEngine_init_def VolatilityModel_init_def
      VOLATILITY_WINDOW_def)

section \<open>Properties of the monitoring loop\<close>

subsection \<open>The two ways a rebalance can fail\<close>

lemma submit_group_None:
  "submit_group w signed_txns = None \<longleftrightarrow>
     (\<exists>e. send_transactions w signed_txns = Inl e)
     \<or> (\<exists>txid e. send_transactions w signed_txns = Inr txid
                  \<and> wait_for_confirmation w txid 4 = Inl e)"
  by (auto simp: submit_group_def split: sum.splits)


lemma stamped_by_rebalance:
  assumes "evaluate engine now stamp px position pool_state = (Inr d, engine')"
    and "action d = REBALANCE"
  shows "last_rebalance_time engine' = stamp"
proof -
  have "emits REBALANCE (fst (evaluate engine now stamp px position pool_state))"
    using assms by (simp add: emits_def)
  then have "last_rebalance_time (snd (evaluate engine now stamp px position pool_state)) = stamp"
    by (simp add: snd_evaluate)
  then show ?thesis using assms(1) by simp
qed

text \<open>
  A failure inside \<^verbatim>\<open>submit_group\<close>, once the group is built: the entry is logged as
  SKIP with \<^verbatim>\<open>" (reverted)"\<close> and without a transaction id, and the time of the decision
  stays.
\<close>

lemma failed_submission_logged_as_skip:
  assumes "fetch_pact_pool_state w ''current_price'' = Some px"
    and "evaluate engine (time_guard w) (time_stamp w) px (read_position_state w)
           (fetch_pact_pool_state w) = (Inr d, engine')"
    and "action d = REBALANCE"
    and "build_rebalance_group w b
           (case new_lower d of Some v \<Rightarrow> v | None \<Rightarrow> px * 0.82)
           (case new_upper d of Some v \<Rightarrow> v | None \<Rightarrow> px * 1.22)
           (read_position_state w) = Inr signed_group"
    and "submit_group w signed_group = None"
  shows "\<exists>e. monitoring_cycle (Some b) w (engine, entries) = (engine', entries @ [e])
          \<and> log_action e = SKIP
          \<and> log_reason e = reason d @ [Lit '' (reverted)'']
          \<and> log_tx_id e = None
          \<and> last_rebalance_time engine' = time_stamp w"
  using assms stamped_by_rebalance [OF assms(2,3)]
  by (simp add: monitoring_cycle_def Let_def truthy_def DecisionLogger_log_def)


subsection \<open>The live cycle\<close>


section \<open>Properties of the volatility model\<close>

subsection \<open>Scaling the dispersion of the recent samples\<close>

lemma length_recent_samples: "length (recent_samples h) = min (length h) 90"
  by (auto simp: recent_samples_def py_slice_from_def)

lemma recent_samples_nonempty: "h \<noteq> [] \<Longrightarrow> recent_samples h \<noteq> []"
  using length_recent_samples [of h] by (cases h) auto

lemma length_scale_dispersion: "length (scale_dispersion k h) = length h"
  by (simp add: scale_dispersion_def Let_def length_recent_samples)

lemma recent_scale_dispersion:
  "recent_samples (scale_dispersion k h) =
     map (\<lambda>p. sample_mean (recent_samples h) + k * (p - sample_mean (recent_samples h)))
       (recent_samples h)"
proof -
  have "length (take (length h - length (recent_samples h)) h) = length h - 90"
    by (simp add: length_recent_samples)
  then show ?thesis
    unfolding scale_dispersion_def Let_def
    by (simp add: recent_samples_def [of "_ @ _"] py_slice_from_def length_recent_samples
        nat_diff_distrib')
qed

lemma sum_list_scaled:
  "sum_list (map (\<lambda>p. m + k * (p - m)) xs) =
     real (length xs) * m + k * (sum_list xs - real (length xs) * m)"
  by (induction xs) (simp_all add: algebra_simps)

lemma sample_mean_scaled:
  assumes "xs \<noteq> []"
  shows "sample_mean (map (\<lambda>p. sample_mean xs + k * (p - sample_mean xs)) xs) = sample_mean xs"
proof -
  have n: "real (length xs) \<noteq> 0" using assms by simp
  have "sum_list xs - real (length xs) * sample_mean xs = 0"
    using n by (simp add: sample_mean_def)
  then show ?thesis
    using n by (simp add: sample_mean_def [of "map _ _"] sum_list_scaled)
qed

lemma sum_list_squares_scaled:
  "sum_list (map (\<lambda>p. (k * p) ^ 2) (ys :: real list)) = k ^ 2 * sum_list (map (\<lambda>p. p ^ 2) ys)"
  by (induction ys) (simp_all add: algebra_simps)

lemma sample_variance_scaled:
  assumes "xs \<noteq> []"
  shows "sample_variance (map (\<lambda>p. sample_mean xs + k * (p - sample_mean xs)) xs)
           = k ^ 2 * sample_variance xs"
proof -
  have "sum_list (map (\<lambda>p. (sample_mean xs + k * (p - sample_mean xs) - sample_mean xs) ^ 2) xs)
          = k ^ 2 * sum_list (map (\<lambda>p. (p - sample_mean xs) ^ 2) xs)"
    using sum_list_squares_scaled [of k "map (\<lambda>p. p - sample_mean xs) xs"]
    by (simp add: comp_def)
  then show ?thesis
    unfolding sample_variance_def [of "map _ _"] sample_mean_scaled [OF assms]
    by (simp add: sample_variance_def comp_def)
qed

lemma sample_variance_nonneg: "0 \<le> sample_variance xs"
  unfolding sample_variance_def
  by (intro divide_nonneg_nonneg sum_list_nonneg) auto

lemma hourly_deviation_pos: "0 < hourly_deviation h"
  by (simp add: hourly_deviation_def Let_def)

lemma hourly_deviation_scaled:
  assumes "h \<noteq> []" and "1 \<le> k"
  shows "hourly_deviation (scale_dispersion k h) =
           (if sample_variance (recent_samples h) > 0 then k else 1) * hourly_deviation h"
proof -
  let ?v = "sample_variance (recent_samples h)"
  have v': "sample_variance (recent_samples (scale_dispersion k h)) = k ^ 2 * ?v"
    unfolding recent_scale_dispersion
    by (rule sample_variance_scaled) (rule recent_samples_nonempty [OF assms(1)])
  have k: "0 < k" using assms(2) by simp
  show ?thesis
  proof (cases "0 < ?v")
    case True
    then have "0 < k ^ 2 * ?v" using k by simp
    moreover have "sqrt (k ^ 2 * ?v) = k * sqrt ?v"
      using k by (simp add: real_sqrt_mult)
    ultimately show ?thesis
      using True by (simp add: hourly_deviation_def v')
  next
    case False
    then have "?v = 0" using sample_variance_nonneg [of "recent_samples h"] by simp
    then show ?thesis
      by (simp add: hourly_deviation_def v')
  qed
qed

lemma hourly_deviation_grows:
  assumes "h \<noteq> []" and "1 \<le> k"
  shows "hourly_deviation h \<le> hourly_deviation (scale_dispersion k h)"
proof -
  have "1 * hourly_deviation h
          \<le> (if sample_variance (recent_samples h) > 0 then k else 1) * hourly_deviation h"
    using assms(2) hourly_deviation_pos [of h] by (intro mult_right_mono) auto
  then show ?thesis
    by (simp add: hourly_deviation_scaled [OF assms])
qed

subsection \<open>Monotonicity\<close>

lemma nearest_bound_distance_abs:
  "l \<le> u \<Longrightarrow> nearest_bound_distance c l u = \<bar>min (c - l) (u - c)\<bar>"
  by (auto simp: nearest_bound_distance_def min_def abs_if)

lemma squared_ratio_antimono:
  fixes x H H' :: real
  assumes "0 < H" and "H \<le> H'"
  shows "(x / H') ^ 2 \<le> (x / H) ^ 2"
proof -
  have "H ^ 2 \<le> H' ^ 2" using assms by (intro power_mono) auto
  moreover have "0 < H ^ 2" using assms(1) by simp
  ultimately have "x ^ 2 / H' ^ 2 \<le> x ^ 2 / H ^ 2"
    by (intro frac_le) auto
  then show ?thesis by (simp add: power_divide)
qed

lemma squared_ratio_mono:
  fixes x y H :: real
  assumes "\<bar>x\<bar> \<le> \<bar>y\<bar>" and "0 < H"
  shows "(x / H) ^ 2 \<le> (y / H) ^ 2"
proof -
  have "\<bar>x\<bar> / H \<le> \<bar>y\<bar> / H" using assms by (intro divide_right_mono) auto
  then have "(\<bar>x\<bar> / H) ^ 2 \<le> (\<bar>y\<bar> / H) ^ 2"
    using assms(2) by (intro power_mono) auto
  then show ?thesis by (simp add: power_divide)
qed

lemma predict_scaled_le:
  assumes "price_history m \<noteq> []" and "1 \<le> k"
    and "\<not> (hourly_deviation (price_history m) < 0.0001
            \<and> 0.0001 \<le> hourly_deviation (scale_dispersion k (price_history m)))"
  shows "predict_hours_in_range (m\<lparr>price_history := scale_dispersion k (price_history m)\<rparr>) c l u
           \<le> predict_hours_in_range m c l u"
proof -
  let ?H = "hourly_deviation (price_history m)"
  let ?H' = "hourly_deviation (scale_dispersion k (price_history m))"
  have grow: "?H \<le> ?H'" by (rule hourly_deviation_grows [OF assms(1,2)])
  have pos: "0 < ?H" by (rule hourly_deviation_pos)
  show ?thesis
  proof (cases "?H < 0.0001")
    case True
    then have "?H' < 0.0001" using assms(3) by simp
    then show ?thesis using True
      by (simp add: predict_hours_alt length_scale_dispersion)
  next
    case False
    then have big: "\<not> ?H' < 0.0001" using grow by simp
    have "(min (c - l) (u - c) / ?H') ^ 2 \<le> (min (c - l) (u - c) / ?H) ^ 2"
      by (rule squared_ratio_antimono [OF pos grow])
    then have "min ((min (c - l) (u - c) / ?H') ^ 2) 168 \<le> min ((min (c - l) (u - c) / ?H) ^ 2) 168"
      by (simp add: min_le_iff_disj)
    then show ?thesis using False big
      by (simp add: predict_hours_alt length_scale_dispersion)
  qed
qed

lemma predict_distance_le:
  assumes "l \<le> u" and "l' \<le> u'"
    and "nearest_bound_distance c l u \<le> nearest_bound_distance c' l' u'"
  shows "predict_hours_in_range m c l u \<le> predict_hours_in_range m c' l' u'"
proof -
  let ?H = "hourly_deviation (price_history m)"
  have "\<bar>min (c - l) (u - c)\<bar> \<le> \<bar>min (c' - l') (u' - c')\<bar>"
    using assms by (simp add: nearest_bound_distance_abs)
  then have "(min (c - l) (u - c) / ?H) ^ 2 \<le> (min (c' - l') (u' - c') / ?H) ^ 2"
    by (rule squared_ratio_mono) (rule hourly_deviation_pos)
  then have "min ((min (c - l) (u - c) / ?H) ^ 2) 168 \<le> min ((min (c' - l') (u' - c') / ?H) ^ 2) 168"
    by (simp add: min_le_iff_disj)
  then show ?thesis
    by (simp add: predict_hours_alt)
qed

subsection \<open>Two-level histories\<close>

lemma two_level_recent:
  "n \<le> 45 \<Longrightarrow> recent_samples (replicate n x @ replicate n y) = replicate n x @ replicate n y"
  by (simp add: recent_samples_def py_slice_from_def)

lemma two_level_mean:
  assumes "0 < n"
  shows "sample_mean (replicate n (a - e) @ replicate n (a + e)) = a"
proof -
  have "sum_list (replicate n (a - e) @ replicate n (a + e)) = real (n + n) * a"
    by (simp add: sum_list_replicate algebra_simps)
  then show ?thesis
    unfolding sample_mean_def using assms by simp
qed

lemma two_level_variance:
  assumes "0 < n"
  shows "sample_variance (replicate n (a - e) @ replicate n (a + e)) = e ^ 2"
proof -
  have "sum_list (map (\<lambda>p. (p - a) ^ 2) (replicate n (a - e) @ replicate n (a + e)))
          = real (n + n) * e ^ 2"
    by (simp add: sum_list_replicate algebra_simps)
  then show ?thesis
    unfolding sample_variance_def two_level_mean [OF assms] using assms by simp
qed

lemma two_level_deviation:
  assumes "0 < n" and "n \<le> 45" and "0 < e"
  shows "hourly_deviation (replicate n (a - e) @ replicate n (a + e)) = e * sqrt 90"
  using assms
  by (simp add: hourly_deviation_def two_level_recent two_level_variance)

lemma quiet_deviation: "hourly_deviation quiet_history = sqrt 90 / 1000000"
  using two_level_deviation [of 5 "1 / 1000000" "9 / 50"]
  by (simp add: quiet_history_def)

lemma lively_deviation: "hourly_deviation lively_history = sqrt 90 / 100"
  using two_level_deviation [of 5 "1 / 100" "9 / 50"]
  by (simp add: lively_history_def)

lemma quiet_variance_pos: "0 < sample_variance (recent_samples quiet_history)"
  using two_level_variance [of 5 "9 / 50" "1 / 1000000"] two_level_recent [of 5 "(9 / 50 - 1 / 1000000)::real" "9 / 50 + 1 / 1000000"]
  by (simp add: quiet_history_def)

lemma sqrt_90_lt_100: "sqrt 90 < 100"
  by (rule real_less_lsqrt) simp_all

lemma quiet_scaled_deviation:
  "hourly_deviation (scale_dispersion 100 quiet_history) = sqrt 90 / 10000"
proof -
  have "quiet_history \<noteq> []" by (simp add: quiet_history_def)
  then have "hourly_deviation (scale_dispersion 100 quiet_history)
               = 100 * hourly_deviation quiet_history"
    using hourly_deviation_scaled [of quiet_history 100] quiet_variance_pos by simp
  then show ?thesis by (simp add: quiet_deviation)
qed

subsection \<open>The claim\<close>

text \<open>
  C8, as the code has it. With at least 10 stored samples, scaling the deviations of the
  most recent 90 samples from their mean by a factor \<open>k \<ge> 1\<close> never increases
  \<^verbatim>\<open>predict_hours_in_range\<close>, unless the scaling lifts the hourly deviation from below
  the threshold 0.0001 of the "very low volatility" branch to or above it. And for a
  fixed history, a smaller distance to the nearer bound never increases the result
  (for ranges with \<open>lower \<le> upper\<close>).
\<close>

theorem volatility_monotone:
  assumes "10 \<le> length (price_history m)" and "1 \<le> k"
  shows "(\<not> (hourly_deviation (price_history m) < 0.0001
             \<and> 0.0001 \<le> hourly_deviation (scale_dispersion k (price_history m))) \<longrightarrow>
           predict_hours_in_range (m\<lparr>price_history := scale_dispersion k (price_history m)\<rparr>) c l u
             \<le> predict_hours_in_range m c l u)
       \<and> (l \<le> u \<and> l' \<le> u'
            \<and> nearest_bound_distance c l u \<le> nearest_bound_distance c' l' u' \<longrightarrow>
           predict_hours_in_range m c l u \<le> predict_hours_in_range m c' l' u')"
proof -
  have "price_history m \<noteq> []" using assms(1) by auto
  then show ?thesis
    using predict_scaled_le [of m k c l u] predict_distance_le [of l u l' u' c c' m] assms(2)
    by blast
qed

text \<open>
  Samples at 0.17 and 0.19, deviations doubled; and the price 0.21 against 0.18 in the
  range from 0.14 to 0.22.
\<close>

theorem volatility_monotone_witness:
  "10 \<le> length lively_history \<and> (1::real) \<le> 2
   \<and> \<not> hourly_deviation lively_history < 0.0001
   \<and> predict_hours_in_range \<lparr>window = 24, price_history = scale_dispersion 2 lively_history\<rparr>
        0.18 0.14 0.22
       \<le> predict_hours_in_range \<lparr>window = 24, price_history = lively_history\<rparr> 0.18 0.14 0.22
   \<and> nearest_bound_distance 0.21 0.14 0.22 \<le> nearest_bound_distance 0.18 0.14 0.22
   \<and> predict_hours_in_range \<lparr>window = 24, price_history = lively_history\<rparr> 0.21 0.14 0.22
       \<le> predict_hours_in_range \<lparr>window = 24, price_history = lively_history\<rparr> 0.18 0.14 0.22"
proof -
  have len: "10 \<le> length (price_history \<lparr>window = 24, price_history = lively_history\<rparr>)"
    by (simp add: lively_history_def)
  have k: "(1::real) \<le> 2" by simp
  have "\<not> 100 * sqrt 90 < 1"
    using sqrt_90_ge_one by linarith
  then have big: "\<not> hourly_deviation lively_history < 0.0001"
    by (simp add: lively_deviation)
  have near: "nearest_bound_distance 0.21 0.14 0.22 \<le> nearest_bound_distance 0.18 0.14 0.22"
    by (simp add: nearest_bound_distance_def)
  show ?thesis
    using volatility_monotone [OF len k, of "0.18" "0.14" "0.22" "0.14" "0.22" "0.18"]
      volatility_monotone [OF len k, of "0.21" "0.14" "0.22" "0.14" "0.22" "0.18"]
      big near len
    by simp
qed

text \<open>
  C8 as the spec states it fails across the threshold: samples one millionth around 0.18
  give the fixed 48 hours of the low-volatility branch, and the same samples with their
  deviations scaled by 100 give the cap of 168 hours.
\<close>

theorem more_dispersion_more_hours:
  "10 \<le> length quiet_history \<and> (1::real) \<le> 100
   \<and> predict_hours_in_range \<lparr>window = 24, price_history = quiet_history\<rparr> 0.18 0.14 0.22 = 48
   \<and> predict_hours_in_range \<lparr>window = 24, price_history = scale_dispersion 100 quiet_history\<rparr>
        0.18 0.14 0.22 = 168
   \<and> \<not> predict_hours_in_range
          \<lparr>window = 24, price_history = scale_dispersion 100 quiet_history\<rparr> 0.18 0.14 0.22
        \<le> predict_hours_in_range \<lparr>window = 24, price_history = quiet_history\<rparr> 0.18 0.14 0.22"
proof -
  have len: "length quiet_history = 10" by (simp add: quiet_history_def)
  have small: "sqrt 90 / 1000000 < (0.0001::real)"
    using sqrt_90_lt_100 by simp
  have big: "\<not> sqrt 90 / 10000 < (0.0001::real)"
    by simp
  have sq: "(400 / sqrt 90) ^ 2 = (16000 / 9 :: real)"
    by (simp add: power_divide)
  have m: "min (0.18 - 0.14) (0.22 - 0.18) = (1 / 25 :: real)" by simp
  have a: "predict_hours_in_range \<lparr>window = 24, price_history = quiet_history\<rparr> 0.18 0.14 0.22 = 48"
    unfolding predict_hours_alt using small by (simp add: len quiet_deviation)
  have b: "predict_hours_in_range \<lparr>window = 24, price_history = scale_dispersion 100 quiet_history\<rparr>
             0.18 0.14 0.22 = 168"
    unfolding predict_hours_alt m using big
    by (simp add: length_scale_dispersion len quiet_scaled_deviation sq)
  show ?thesis using a b len by simp
qed

end
